theory Spec2Isabelle
  imports Main
begin

section \<open>The relay handler of proxy_server.js\<close>

text \<open>
  The program is one function, \<^verbatim>\<open>requestHandler(req, res)\<close>, and the listeners it
  registers: the callback of \<^verbatim>\<open>protocolModule.request\<close>, the \<^verbatim>\<open>'error'\<close> listener
  of the outbound request and the two pipes. The synchronous part is the function
  \<open>requestHandler\<close> below; the listeners are the function \<open>on_event\<close>, one
  equation per event the runtime can deliver.

  The runtime itself (Node's \<^verbatim>\<open>url.parse\<close>, the HTTP client and server objects)
  is not part of the repository. \<^verbatim>\<open>url.parse\<close> and \<^verbatim>\<open>protocolModule.request\<close> are
  parameters of the handler: the first returns a URL object or throws, the second
  returns or throws. The objects \<^verbatim>\<open>res\<close> and \<^verbatim>\<open>proxyReq\<close> are records that keep
  the calls made on them; \<^verbatim>\<open>res.writeHead\<close> throws for a head already sent and for
  a status code outside 100 to 999. No call of the program stands in a \<^verbatim>\<open>try\<close>
  block, so an exception leaves the handler or the listener it is thrown in.
\<close>

subsection \<open>Data\<close>

text \<open>A header value is a string, or an array of strings (as for \<^verbatim>\<open>set-cookie\<close>).\<close>

datatype header_value = HString string | HArray "string list"

text \<open>A header object: a JavaScript object used as a dictionary from names to values.\<close>

type_synonym header_map = "string \<rightharpoonup> header_value"

text \<open>A chunk of a body: the bytes of one \<^verbatim>\<open>'data'\<close> event.\<close>

type_synonym chunk = string

text \<open>
  The inbound request \<^verbatim>\<open>req\<close>: the fields the handler reads. Node gives the header
  names in lower case.
\<close>

record incoming_message =
  req_url :: string
  req_method :: string
  req_headers :: header_map

text \<open>
  The object \<^verbatim>\<open>url.parse\<close> returns: the four fields the handler reads, each
  \<^verbatim>\<open>null\<close> (\<open>None\<close>) or a string.
\<close>

record url_object =
  protocol :: "string option"
  hostname :: "string option"
  port :: "string option"
  path :: "string option"

text \<open>
  An exception, by the name of its constructor, with the code Node gives it
  (\<^verbatim>\<open>ERR_...\<close>) or, where it has none, its message. \<^verbatim>\<open>PlainError\<close> is the
  constructor \<^verbatim>\<open>Error\<close>.
\<close>

datatype js_error = URIError string | TypeError string | RangeError string | PlainError string

text \<open>
  The value of \<^verbatim>\<open>options.port\<close>: the string of the parsed URL, or one of the numbers
  443 and 80.
\<close>

datatype port_value = PortString string | PortNumber nat

text \<open>The two modules \<^verbatim>\<open>protocolModule\<close> ranges over.\<close>

datatype protocol_module = http | https

text \<open>The object \<^verbatim>\<open>options\<close> (lines 52 to 61).\<close>

record request_options =
  o_hostname :: "string option"
  o_port :: port_value
  o_path :: "string option"
  o_method :: string
  o_headers :: header_map

text \<open>
  The outbound request \<^verbatim>\<open>proxyReq\<close>: the module that made it, its options, the
  chunks written to it and whether it was ended.
\<close>

record client_request =
  protocolModule :: protocol_module
  options :: request_options
  written :: "chunk list"
  ended :: bool

text \<open>
  The client's response object \<^verbatim>\<open>res\<close>: the calls made on it, in order, and its
  property \<^verbatim>\<open>headersSent\<close>.
\<close>

datatype res_call = WriteHead nat header_map | Write chunk | End "chunk option"

record server_response =
  headersSent :: bool
  calls :: "res_call list"

datatype console_line = ConsoleLog string | ConsoleError string

text \<open>
  The state of one exchange: \<^verbatim>\<open>res\<close>, the outbound request (\<open>None\<close> when the handler
  returned before making one), whether \<^verbatim>\<open>proxyRes.pipe(res)\<close> has been installed, the
  console, and the exceptions that have left a listener uncaught.
\<close>

record exchange =
  res :: server_response
  proxyReq :: "client_request option"
  piped :: bool
  console :: "console_line list"
  uncaught :: "js_error list"

subsection \<open>The response object\<close>

text \<open>
  \<^verbatim>\<open>res.writeHead\<close> throws \<^verbatim>\<open>ERR_HTTP_HEADERS_SENT\<close> when a head has been sent and
  \<^verbatim>\<open>ERR_HTTP_INVALID_STATUS_CODE\<close> for a status code outside 100 to 999, and writes
  nothing then. Otherwise the call is recorded and \<^verbatim>\<open>res.headersSent\<close> is true from
  then on. \<^verbatim>\<open>res.write\<close> and \<^verbatim>\<open>res.end\<close> are recorded; \<^verbatim>\<open>End None\<close> is
  \<^verbatim>\<open>res.end()\<close> without data, as a pipe calls it.
\<close>

definition new_response :: server_response where
  "new_response = \<lparr>headersSent = False, calls = []\<rparr>"

definition res_writeHead ::
  "nat \<Rightarrow> header_map \<Rightarrow> server_response \<Rightarrow> js_error + server_response" where
  "res_writeHead sc hs r =
     (if headersSent r then Inl (PlainError ''ERR_HTTP_HEADERS_SENT'')
      else if sc < 100 \<or> 999 < sc then Inl (RangeError ''ERR_HTTP_INVALID_STATUS_CODE'')
      else Inr (r\<lparr>headersSent := True, calls := calls r @ [WriteHead sc hs]\<rparr>))"

definition res_write :: "chunk \<Rightarrow> server_response \<Rightarrow> server_response" where
  "res_write c r = r\<lparr>headersSent := True, calls := calls r @ [Write c]\<rparr>"

definition res_end :: "chunk option \<Rightarrow> server_response \<Rightarrow> server_response" where
  "res_end c r = r\<lparr>headersSent := True, calls := calls r @ [End c]\<rparr>"

subsection \<open>The handler\<close>

text \<open>The template literal of lines 23 to 34.\<close>

definition help_page :: string where
  \<open>help_page = concat [
     ''\<newline>'',
     ''            <html>\<newline>'',
     ''                <body style="font-family: sans-serif; background-color: #0d1117; color: white; padding: 20px;">\<newline>'',
     ''                    <h2>Simple Node.js Web Proxy</h2>\<newline>'',
     ''                    <p>To use, prepend the full URL you want to access to the proxy's address:</p>\<newline>'',
     ''                    <p style="background-color: #21262d; padding: 10px; border-radius: 6px;">\<newline>'',
     ''                        <strong>Example (replace this address with your deployed domain):</strong> [YOUR_VERCEL_DOMAIN]/https://www.google.com\<newline>'',
     ''                    </p>\<newline>'',
     ''                    <p>This proxy forwards GET requests and returns the content.</p>\<newline>'',
     ''                </body>\<newline>'',
     ''            </html>\<newline>'',
     ''        '']\<close>

definition error_400_body :: string where
  "error_400_body = ''Error: Only http or https protocols are supported.''"

definition error_500_body :: "string \<Rightarrow> string" where
  "error_500_body message = ''Proxy Error: Could not reach target server. ('' @ message @ '')''"

text \<open>
  \<^verbatim>\<open>parsedUrl.port || (isHttps ? 443 : 80)\<close>: the left operand is \<^verbatim>\<open>null\<close> or a
  string, and is falsy when \<^verbatim>\<open>null\<close> or empty.
\<close>

definition port_or_default :: "string option \<Rightarrow> bool \<Rightarrow> port_value" where
  "port_or_default p isHttps =
     (case p of
        None \<Rightarrow> PortNumber (if isHttps then 443 else 80)
      | Some s \<Rightarrow> if s = [] then PortNumber (if isHttps then 443 else 80) else PortString s)"

text \<open>
  Lines 14 to 85, up to the return of the handler. \<^verbatim>\<open>req.url.slice(1)\<close> drops the
  first character, whatever it is. \<open>request m o\<close> is what
  \<^verbatim>\<open>protocolModule.request(options, callback)\<close> throws for the module \<open>m\<close> and the
  options \<open>o\<close>, or \<open>None\<close> when it returns the outbound request.

  The result is the exchange as the handler leaves it (\<open>Inr\<close>), or the exception that
  leaves the handler, with the lines printed before it (\<open>Inl\<close>): \<^verbatim>\<open>url.parse\<close> on
  line 39 throws before anything is printed or called on \<^verbatim>\<open>res\<close>; \<^verbatim>\<open>request\<close> on line
  66 throws after the line of line 63 is printed, before any listener is registered.
\<close>

definition requestHandler ::
  "(string \<Rightarrow> js_error + url_object) \<Rightarrow>
   (protocol_module \<Rightarrow> request_options \<Rightarrow> js_error option) \<Rightarrow>
   incoming_message \<Rightarrow> js_error \<times> console_line list + exchange" where
  "requestHandler url_parse request req =
     (let targetUrl = drop 1 (req_url req) in
      if targetUrl = [] then
        (case res_writeHead 200 [''Content-Type'' \<mapsto> HString ''text/html''] new_response of
           Inl e \<Rightarrow> Inl (e, [])
         | Inr r \<Rightarrow>
             Inr \<lparr>res = res_end (Some help_page) r,
                  proxyReq = None, piped = False, console = [], uncaught = []\<rparr>)
      else
        case url_parse targetUrl of
          Inl e \<Rightarrow> Inl (e, [])
        | Inr parsedUrl \<Rightarrow>
            if protocol parsedUrl \<noteq> Some ''http:'' \<and> protocol parsedUrl \<noteq> Some ''https:'' then
              (case res_writeHead 400 [''Content-Type'' \<mapsto> HString ''text/plain''] new_response of
                 Inl e \<Rightarrow> Inl (e, [])
               | Inr r \<Rightarrow>
                   Inr \<lparr>res = res_end (Some error_400_body) r,
                        proxyReq = None, piped = False, console = [], uncaught = []\<rparr>)
            else
              let isHttps = (protocol parsedUrl = Some ''https:'');
                  module = (if isHttps then https else http);
                  opts = \<lparr>o_hostname = hostname parsedUrl,
                          o_port = port_or_default (port parsedUrl) isHttps,
                          o_path = path parsedUrl,
                          o_method = req_method req,
                          o_headers = req_headers req\<rparr>;
                  opts = opts\<lparr>o_headers := (o_headers opts)(''host'' := None)\<rparr>;
                  printed = [ConsoleLog (''[Proxy] Forwarding '' @ req_method req @
                                         '' request to: '' @ targetUrl)]
              in case request module opts of
                   Some e \<Rightarrow> Inl (e, printed)
                 | None \<Rightarrow>
                     Inr \<lparr>res = new_response,
                          proxyReq = Some \<lparr>protocolModule = module, options = opts, written = [],
                                           ended = False\<rparr>,
                          piped = False, console = printed, uncaught = []\<rparr>)"

subsection \<open>The listeners\<close>

text \<open>
  The events of one exchange: the callback of \<^verbatim>\<open>request\<close> with the status code and
  headers of \<^verbatim>\<open>proxyRes\<close>; \<^verbatim>\<open>'data'\<close> and \<^verbatim>\<open>'end'\<close> of \<^verbatim>\<open>proxyRes\<close>; \<^verbatim>\<open>'error'\<close> of
  \<^verbatim>\<open>proxyReq\<close> with \<^verbatim>\<open>e.message\<close>; \<^verbatim>\<open>'data'\<close> and \<^verbatim>\<open>'end'\<close> of \<^verbatim>\<open>req\<close>.
\<close>

datatype event =
    ProxyResponse nat header_map
  | ProxyResData chunk
  | ProxyResEnd
  | ProxyReqError string
  | ReqData chunk
  | ReqEnd

text \<open>
  Lines 66 to 84. A listener exists only once the code has registered it: none on the
  help and 400 paths (the handler returned before line 66), and those of
  \<^verbatim>\<open>proxyRes.pipe(res, { end: true })\<close> only after the callback of line 66 has run
  line 71. When \<^verbatim>\<open>res.writeHead\<close> throws on line 68, the exception leaves the
  callback: no head is written and the pipe of line 71 is not installed.
  A pipe writes each chunk of its source to its destination as it arrives and, with
  \<^verbatim>\<open>end: true\<close>, ends the destination when the source ends.
\<close>

fun on_event :: "exchange \<Rightarrow> event \<Rightarrow> exchange" where
  "on_event x (ProxyResponse statusCode hs) =
     (case proxyReq x of
        None \<Rightarrow> x
      | Some _ \<Rightarrow>
          (case res_writeHead statusCode hs (res x) of
             Inl e \<Rightarrow> x\<lparr>uncaught := uncaught x @ [e]\<rparr>
           | Inr r \<Rightarrow> x\<lparr>res := r, piped := True\<rparr>))"
| "on_event x (ProxyResData c) =
     (if piped x then x\<lparr>res := res_write c (res x)\<rparr> else x)"
| "on_event x ProxyResEnd =
     (if piped x then x\<lparr>res := res_end None (res x)\<rparr> else x)"
| "on_event x (ProxyReqError message) =
     (case proxyReq x of
        None \<Rightarrow> x
      | Some _ \<Rightarrow>
          (let x' = x\<lparr>console := console x @
                      [ConsoleError (''[Proxy Error] Problem with request to target: '' @ message)]\<rparr>
           in if \<not> headersSent (res x') then
                (case res_writeHead 500 [''Content-Type'' \<mapsto> HString ''text/plain''] (res x') of
                   Inl e \<Rightarrow> x'\<lparr>uncaught := uncaught x' @ [e]\<rparr>
                 | Inr r \<Rightarrow> x'\<lparr>res := res_end (Some (error_500_body message)) r\<rparr>)
              else x'))"
| "on_event x (ReqData c) =
     (case proxyReq x of
        None \<Rightarrow> x
      | Some r \<Rightarrow> x\<lparr>proxyReq := Some (r\<lparr>written := written r @ [c]\<rparr>)\<rparr>)"
| "on_event x ReqEnd =
     (case proxyReq x of
        None \<Rightarrow> x
      | Some r \<Rightarrow> x\<lparr>proxyReq := Some (r\<lparr>ended := True\<rparr>)\<rparr>)"

text \<open>The exchange after a sequence of events, from the state the handler returned.\<close>

definition run :: "exchange \<Rightarrow> event list \<Rightarrow> exchange" where
  "run x evs = foldl on_event x evs"

subsection \<open>What the client and the target see\<close>

fun is_WriteHead :: "res_call \<Rightarrow> bool" where
  "is_WriteHead (WriteHead _ _) = True"
| "is_WriteHead _ = False"


text \<open>The head comes before every other call on \<^verbatim>\<open>res\<close>.\<close>

definition headers_first :: "res_call list \<Rightarrow> bool" where
  "headers_first cs = (case cs of [] \<Rightarrow> True | c # _ \<Rightarrow> is_WriteHead c)"

fun call_chunk :: "res_call \<Rightarrow> chunk list" where
  "call_chunk (WriteHead _ _) = []"
| "call_chunk (Write c) = [c]"
| "call_chunk (End None) = []"
| "call_chunk (End (Some c)) = [c]"

text \<open>The body chunks given to the client, in order, and their bytes.\<close>

definition client_chunks :: "server_response \<Rightarrow> chunk list" where
  "client_chunks r = concat (map call_chunk (calls r))"

definition client_body :: "server_response \<Rightarrow> string" where
  "client_body r = concat (client_chunks r)"

text \<open>The body chunks the target sent, and those the client sent, in order.\<close>

fun target_chunks :: "event list \<Rightarrow> chunk list" where
  "target_chunks [] = []"
| "target_chunks (ProxyResData c # es) = c # target_chunks es"
| "target_chunks (_ # es) = target_chunks es"

fun inbound_chunks :: "event list \<Rightarrow> chunk list" where
  "inbound_chunks [] = []"
| "inbound_chunks (ReqData c # es) = c # inbound_chunks es"
| "inbound_chunks (_ # es) = inbound_chunks es"

text \<open>
  The calls a relay of the target's response makes on \<^verbatim>\<open>res\<close>: the head, one
  \<^verbatim>\<open>write\<close> for each chunk, and \<^verbatim>\<open>end()\<close> at the end.
\<close>

fun relay_calls :: "event list \<Rightarrow> res_call list" where
  "relay_calls [] = []"
| "relay_calls (ProxyResponse sc hs # es) = WriteHead sc hs # relay_calls es"
| "relay_calls (ProxyResData c # es) = Write c # relay_calls es"
| "relay_calls (ProxyResEnd # es) = End None # relay_calls es"
| "relay_calls (_ # es) = relay_calls es"

fun is_ReqEnd :: "event \<Rightarrow> bool" where
  "is_ReqEnd ReqEnd = True"
| "is_ReqEnd _ = False"

text \<open>Every response among the events has a status code from 100 to 999.\<close>

fun status_in_range :: "event list \<Rightarrow> bool" where
  "status_in_range [] = True"
| "status_in_range (ProxyResponse sc _ # es) = (100 \<le> sc \<and> sc \<le> 999 \<and> status_in_range es)"
| "status_in_range (_ # es) = status_in_range es"

subsection \<open>The order of events\<close>

text \<open>
  The order in which Node's HTTP client delivers the events of one outbound request.
  The callback of \<^verbatim>\<open>request\<close> is a one-time listener of \<^verbatim>\<open>'response'\<close>; \<^verbatim>\<open>proxyRes\<close>
  emits \<^verbatim>\<open>'data'\<close> and \<^verbatim>\<open>'end'\<close> only after that callback, and no \<^verbatim>\<open>'data'\<close> after
  \<^verbatim>\<open>'end'\<close>; a request that has emitted \<^verbatim>\<open>'error'\<close> is destroyed and delivers no
  response any more. The events of \<^verbatim>\<open>req\<close> are not constrained.
\<close>

datatype phase = Waiting | Responding | Finished | Failed

fun client_trace :: "phase \<Rightarrow> event list \<Rightarrow> bool" where
  "client_trace p [] = True"
| "client_trace p (ProxyResponse _ _ # es) = (p = Waiting \<and> client_trace Responding es)"
| "client_trace p (ProxyResData _ # es) = (p = Responding \<and> client_trace Responding es)"
| "client_trace p (ProxyResEnd # es) = (p = Responding \<and> client_trace Finished es)"
| "client_trace p (ProxyReqError _ # es) = client_trace Failed es"
| "client_trace p (ReqData _ # es) = client_trace p es"
| "client_trace p (ReqEnd # es) = client_trace p es"

fun is_failure :: "event \<Rightarrow> bool" where
  "is_failure (ProxyReqError _) = True"
| "is_failure _ = False"

text \<open>An exchange in which the outbound request never fails.\<close>

definition failure_free :: "event list \<Rightarrow> bool" where
  "failure_free evs = (\<not> list_ex is_failure evs)"

subsection \<open>Test data\<close>

text \<open>
  What \<^verbatim>\<open>url.parse\<close> does on the targets the examples below use, as a table; off the
  table the value is a placeholder that no example uses. Node documents of
  \<^verbatim>\<open>url.parse\<close> that a \<^verbatim>\<open>URIError\<close> is thrown if the \<^verbatim>\<open>auth\<close> property is present
  but cannot be decoded: the target \<^verbatim>\<open>http://%@example.test/\<close> has the \<^verbatim>\<open>auth\<close>
  part \<^verbatim>\<open>%\<close>, which \<^verbatim>\<open>decodeURIComponent\<close> refuses with the message
  \<^verbatim>\<open>URI malformed\<close>. On \<^verbatim>\<open>http://xn--/\<close> it throws \<^verbatim>\<open>ERR_INVALID_URL\<close>, a
  \<^verbatim>\<open>TypeError\<close>. It does not check the range of a port.
\<close>

definition sample_parse :: "string \<Rightarrow> js_error + url_object" where
  "sample_parse s =
     (if s = ''http://example.test/foo?x=1'' then
        Inr \<lparr>protocol = Some ''http:'', hostname = Some ''example.test'', port = None,
             path = Some ''/foo?x=1''\<rparr>
      else if s = ''https://example.test/submit'' then
        Inr \<lparr>protocol = Some ''https:'', hostname = Some ''example.test'', port = None,
             path = Some ''/submit''\<rparr>
      else if s = ''http://127.0.0.1:3000/api?q=1'' then
        Inr \<lparr>protocol = Some ''http:'', hostname = Some ''127.0.0.1'', port = Some ''3000'',
             path = Some ''/api?q=1''\<rparr>
      else if s = ''http://127.0.0.1:99999/'' then
        Inr \<lparr>protocol = Some ''http:'', hostname = Some ''127.0.0.1'', port = Some ''99999'',
             path = Some ''/''\<rparr>
      else if s = ''http:/foo'' then
        Inr \<lparr>protocol = Some ''http:'', hostname = None, port = None, path = Some ''/foo''\<rparr>
      else if s = ''ftp://example.test/f'' then
        Inr \<lparr>protocol = Some ''ftp:'', hostname = Some ''example.test'', port = None,
             path = Some ''/f''\<rparr>
      else if s = ''http://%@example.test/'' then
        Inl (URIError ''URI malformed'')
      else if s = ''http://xn--/'' then
        Inl (TypeError ''ERR_INVALID_URL'')
      else Inr \<lparr>protocol = None, hostname = None, port = None, path = Some s\<rparr>)"

text \<open>
  What \<^verbatim>\<open>request\<close> does on the options the examples use: it throws
  \<^verbatim>\<open>ERR_SOCKET_BAD_PORT\<close>, a \<^verbatim>\<open>RangeError\<close>, for the port \<^verbatim>\<open>99999\<close>, and returns
  for the others.
\<close>

definition sample_request :: "protocol_module \<Rightarrow> request_options \<Rightarrow> js_error option" where
  "sample_request m opts =
     (if o_port opts = PortString ''99999'' then Some (RangeError ''ERR_SOCKET_BAD_PORT'')
      else None)"

definition sample_get :: incoming_message where
  "sample_get = \<lparr>req_url = ''/http://example.test/foo?x=1'', req_method = ''GET'',
     req_headers = [''host'' \<mapsto> HString ''proxy.test'', ''accept'' \<mapsto> HString ''*/*'']\<rparr>"

text \<open>The exchange the handler leaves for \<open>sample_get\<close>.\<close>

definition sample_get_exchange :: exchange where
  "sample_get_exchange =
     \<lparr>res = \<lparr>headersSent = False, calls = []\<rparr>,
      proxyReq = Some
        \<lparr>protocolModule = http,
         options = \<lparr>o_hostname = Some ''example.test'', o_port = PortNumber 80,
                    o_path = Some ''/foo?x=1'', o_method = ''GET'',
                    o_headers = [''accept'' \<mapsto> HString ''*/*'']\<rparr>,
         written = [], ended = False\<rparr>,
      piped = False,
      console = [ConsoleLog ''[Proxy] Forwarding GET request to: http://example.test/foo?x=1''],
      uncaught = []\<rparr>"

definition sample_post :: incoming_message where
  "sample_post = \<lparr>req_url = ''/https://example.test/submit'', req_method = ''POST'',
     req_headers = [''host'' \<mapsto> HString ''proxy.test'', ''content-length'' \<mapsto> HString ''7'']\<rparr>"

definition sample_port :: incoming_message where
  "sample_port = \<lparr>req_url = ''/http://127.0.0.1:3000/api?q=1'', req_method = ''GET'',
     req_headers = [''host'' \<mapsto> HString ''proxy.test'']\<rparr>"

definition sample_bad_port :: incoming_message where
  "sample_bad_port = \<lparr>req_url = ''/http://127.0.0.1:99999/'', req_method = ''GET'',
     req_headers = [''host'' \<mapsto> HString ''proxy.test'']\<rparr>"

definition sample_hostless :: incoming_message where
  "sample_hostless = \<lparr>req_url = ''/http:/foo'', req_method = ''GET'',
     req_headers = [''host'' \<mapsto> HString ''proxy.test'']\<rparr>"

definition sample_ftp :: incoming_message where
  "sample_ftp = \<lparr>req_url = ''/ftp://example.test/f'', req_method = ''GET'',
     req_headers = [''host'' \<mapsto> HString ''proxy.test'']\<rparr>"

definition sample_bad_auth :: incoming_message where
  "sample_bad_auth = \<lparr>req_url = ''/http://%@example.test/'', req_method = ''GET'',
     req_headers = [''host'' \<mapsto> HString ''proxy.test'']\<rparr>"

definition sample_bad_host :: incoming_message where
  "sample_bad_host = \<lparr>req_url = ''/http://xn--/'', req_method = ''GET'',
     req_headers = [''host'' \<mapsto> HString ''proxy.test'']\<rparr>"

definition sample_root :: incoming_message where
  "sample_root = \<lparr>req_url = ''/'', req_method = ''DELETE'',
     req_headers = [''host'' \<mapsto> HString ''proxy.test'']\<rparr>"

section \<open>Properties\<close>

subsection \<open>Auxiliary facts\<close>

lemma res_writeHead_ok:
  "\<not> headersSent r \<Longrightarrow> 100 \<le> sc \<Longrightarrow> sc \<le> 999 \<Longrightarrow>
   res_writeHead sc hs r = Inr (r\<lparr>headersSent := True, calls := calls r @ [WriteHead sc hs]\<rparr>)"
  by (simp add: res_writeHead_def)

lemma res_writeHead_sent: "headersSent r \<Longrightarrow> res_writeHead sc hs r = Inl (PlainError ''ERR_HTTP_HEADERS_SENT'')"
  by (simp add: res_writeHead_def)


lemma on_event_idle: "proxyReq x = None \<Longrightarrow> \<not> piped x \<Longrightarrow> on_event x e = x"
  by (cases e) simp_all

lemma run_idle: "proxyReq x = None \<Longrightarrow> \<not> piped x \<Longrightarrow> run x evs = x"
  by (induction evs) (simp_all add: run_def on_event_idle)

lemma run_Nil: "run x [] = x"
  by (simp add: run_def)

lemma run_Cons: "run x (e # es) = run (on_event x e) es"
  by (simp add: run_def)

lemma handler_help:
  assumes "drop 1 (req_url req) = []"
  shows "requestHandler url_parse request req =
    Inr \<lparr>res = \<lparr>headersSent = True,
                 calls = [WriteHead 200 [''Content-Type'' \<mapsto> HString ''text/html''],
                          End (Some help_page)]\<rparr>,
         proxyReq = None, piped = False, console = [], uncaught = []\<rparr>"
  using assms by (simp add: requestHandler_def res_end_def res_writeHead_def new_response_def)

lemma handler_throws:
  assumes "drop 1 (req_url req) \<noteq> []"
    and "url_parse (drop 1 (req_url req)) = Inl e"
  shows "requestHandler url_parse request req = Inl (e, [])"
  using assms by (simp add: requestHandler_def)

lemma handler_400:
  assumes "drop 1 (req_url req) \<noteq> []"
    and "url_parse (drop 1 (req_url req)) = Inr u"
    and "protocol u \<noteq> Some ''http:''"
    and "protocol u \<noteq> Some ''https:''"
  shows "requestHandler url_parse request req =
    Inr \<lparr>res = \<lparr>headersSent = True,
                 calls = [WriteHead 400 [''Content-Type'' \<mapsto> HString ''text/plain''],
                          End (Some ''Error: Only http or https protocols are supported.'')]\<rparr>,
         proxyReq = None, piped = False, console = [], uncaught = []\<rparr>"
  using assms
  by (simp add: requestHandler_def res_end_def res_writeHead_def new_response_def error_400_body_def)

text \<open>The proxied path: the handler's result is decided by what \<^verbatim>\<open>request\<close> does.\<close>

lemma handler_proxied:
  assumes "drop 1 (req_url req) \<noteq> []"
    and "url_parse (drop 1 (req_url req)) = Inr u"
    and "protocol u = Some ''http:'' \<or> protocol u = Some ''https:''"
  shows "requestHandler url_parse request req =
    (case request (if protocol u = Some ''https:'' then https else http)
            \<lparr>o_hostname = hostname u,
             o_port = port_or_default (port u) (protocol u = Some ''https:''),
             o_path = path u,
             o_method = req_method req,
             o_headers = (req_headers req)(''host'' := None)\<rparr> of
       Some e \<Rightarrow>
         Inl (e, [ConsoleLog (''[Proxy] Forwarding '' @ req_method req @ '' request to: '' @
                              drop 1 (req_url req))])
     | None \<Rightarrow>
         Inr \<lparr>res = \<lparr>headersSent = False, calls = []\<rparr>,
              proxyReq = Some
                \<lparr>protocolModule = (if protocol u = Some ''https:'' then https else http),
                 options =
                   \<lparr>o_hostname = hostname u,
                    o_port = port_or_default (port u) (protocol u = Some ''https:''),
                    o_path = path u,
                    o_method = req_method req,
                    o_headers = (req_headers req)(''host'' := None)\<rparr>,
                 written = [], ended = False\<rparr>,
              piped = False,
              console = [ConsoleLog (''[Proxy] Forwarding '' @ req_method req @ '' request to: '' @
                                     drop 1 (req_url req))],
              uncaught = []\<rparr>)"
  using assms
  by (auto simp add: requestHandler_def Let_def new_response_def split: option.splits)

text \<open>The proxied path, when the handler returns.\<close>

lemma handler_proxied_returned:
  assumes "drop 1 (req_url req) \<noteq> []"
    and "url_parse (drop 1 (req_url req)) = Inr u"
    and "protocol u = Some ''http:'' \<or> protocol u = Some ''https:''"
    and "requestHandler url_parse request req = Inr x"
  shows "x =
         \<lparr>res = \<lparr>headersSent = False, calls = []\<rparr>,
              proxyReq = Some
                \<lparr>protocolModule = (if protocol u = Some ''https:'' then https else http),
                 options =
                   \<lparr>o_hostname = hostname u,
                    o_port = port_or_default (port u) (protocol u = Some ''https:''),
                    o_path = path u,
                    o_method = req_method req,
                    o_headers = (req_headers req)(''host'' := None)\<rparr>,
                 written = [], ended = False\<rparr>,
              piped = False,
              console = [ConsoleLog (''[Proxy] Forwarding '' @ req_method req @ '' request to: '' @
                                     drop 1 (req_url req))],
              uncaught = []\<rparr>"
  using handler_proxied [where url_parse = url_parse and request = request and req = req,
      OF assms(1-3)] assms(4)
  by (auto split: option.splits)

text \<open>Whatever the handler returns is fresh, or a finished answer without listeners.\<close>

lemma handler_returned:
  assumes "requestHandler url_parse request req = Inr x"
  shows "(proxyReq x = None \<and> \<not> piped x \<and> length (filter is_WriteHead (calls (res x))) = 1) \<or>
         ((\<exists>r. proxyReq x = Some r \<and> written r = [] \<and> \<not> ended r) \<and>
          \<not> piped x \<and> calls (res x) = [] \<and> \<not> headersSent (res x))"
proof (cases "drop 1 (req_url req) = []")
  case True
  from handler_help [where url_parse = url_parse and request = request and req = req, OF True] assms
  show ?thesis by auto
next
  case False
  show ?thesis
  proof (cases "url_parse (drop 1 (req_url req))")
    case (Inl e)
    from handler_throws [where url_parse = url_parse and request = request and req = req,
        OF False Inl] assms
    show ?thesis by simp
  next
    case (Inr u)
    show ?thesis
    proof (cases "protocol u = Some ''http:'' \<or> protocol u = Some ''https:''")
      case True
      from handler_proxied_returned [where url_parse = url_parse and request = request and req = req,
          OF False Inr True assms]
      show ?thesis by simp
    next
      case bad: False
      then have "protocol u \<noteq> Some ''http:''" "protocol u \<noteq> Some ''https:''" by simp_all
      from handler_400 [where url_parse = url_parse and request = request and req = req,
          OF False Inr this] assms
      show ?thesis by auto
    qed
  qed
qed

lemma on_event_request:
  assumes "proxyReq x = Some r"
  shows "\<exists>r'. proxyReq (on_event x e) = Some r' \<and> options r' = options r \<and>
              protocolModule r' = protocolModule r \<and>
              written r' = written r @ inbound_chunks [e] \<and>
              ended r' = (ended r \<or> is_ReqEnd e)"
  using assms by (cases e) (auto simp add: Let_def split: sum.splits)

lemma inbound_chunks_Cons: "inbound_chunks (e # es) = inbound_chunks [e] @ inbound_chunks es"
  by (cases e) simp_all

lemma run_request:
  assumes "proxyReq x = Some r"
  shows "\<exists>r'. proxyReq (run x evs) = Some r' \<and> options r' = options r \<and>
              protocolModule r' = protocolModule r \<and>
              written r' = written r @ inbound_chunks evs \<and>
              ended r' = (ended r \<or> list_ex is_ReqEnd evs)"
  using assms
proof (induction evs arbitrary: x r)
  case Nil
  then show ?case by (simp add: run_Nil)
next
  case (Cons e es)
  from on_event_request [OF Cons.prems, of e] obtain r1 where
    r1: "proxyReq (on_event x e) = Some r1" "options r1 = options r"
        "protocolModule r1 = protocolModule r" "written r1 = written r @ inbound_chunks [e]"
        "ended r1 = (ended r \<or> is_ReqEnd e)"
    by blast
  from Cons.IH [OF r1(1)] obtain r2 where
    r2: "proxyReq (run (on_event x e) es) = Some r2" "options r2 = options r1"
        "protocolModule r2 = protocolModule r1" "written r2 = written r1 @ inbound_chunks es"
        "ended r2 = (ended r1 \<or> list_ex is_ReqEnd es)"
    by blast
  from r1 r2 inbound_chunks_Cons [of e es] show ?case by (simp add: run_Cons)
qed

lemma proxyReq_on_event: "proxyReq x \<noteq> None \<Longrightarrow> proxyReq (on_event x e) \<noteq> None"
  using on_event_request [of x _ e] by fastforce

lemma proxyReq_run: "proxyReq x \<noteq> None \<Longrightarrow> proxyReq (run x evs) \<noteq> None"
  using run_request [of x _ evs] by fastforce

lemma no_response_after_start:
  "client_trace p evs \<Longrightarrow> p \<noteq> Waiting \<Longrightarrow> ProxyResponse sc hs \<notin> set evs"
proof (induction evs arbitrary: p)
  case Nil
  then show ?case by simp
next
  case (Cons e es)
  then show ?case by (cases e) auto
qed

lemma error_after_head: "headersSent (res x) \<Longrightarrow> res (on_event x (ProxyReqError m)) = res x"
  by (cases "proxyReq x") (simp_all add: Let_def)


text \<open>What one event does to the calls on \<^verbatim>\<open>res\<close> once a head has been sent.\<close>

lemma started_step:
  assumes "headersSent (res x)"
  shows "headersSent (res (on_event x e)) \<and>
         (\<exists>more. calls (res (on_event x e)) = calls (res x) @ more \<and> \<not> list_ex is_WriteHead more)"
proof (cases e)
  case (ProxyResponse sc hs)
  with assms show ?thesis
    by (cases "proxyReq x") (simp_all add: res_writeHead_sent)
next
  case (ProxyResData c)
  with assms show ?thesis by (simp add: res_write_def)
next
  case ProxyResEnd
  with assms show ?thesis by (simp add: res_end_def)
next
  case (ProxyReqError m)
  with assms error_after_head [OF assms, of m] show ?thesis by simp
next
  case (ReqData c)
  with assms show ?thesis by (cases "proxyReq x") simp_all
next
  case ReqEnd
  with assms show ?thesis by (cases "proxyReq x") simp_all
qed

lemma started_calls:
  "headersSent (res x) \<Longrightarrow>
   \<exists>more. calls (res (run x evs)) = calls (res x) @ more \<and> \<not> list_ex is_WriteHead more"
proof (induction evs arbitrary: x)
  case Nil
  then show ?case by (simp add: run_Nil)
next
  case (Cons e es)
  from started_step [OF Cons.prems, of e] obtain m1 where
    s: "headersSent (res (on_event x e))"
       "calls (res (on_event x e)) = calls (res x) @ m1" "\<not> list_ex is_WriteHead m1" by blast
  from Cons.IH [OF s(1)] obtain m2 where
    t: "calls (res (run (on_event x e) es)) = calls (res (on_event x e)) @ m2"
       "\<not> list_ex is_WriteHead m2" by blast
  have "calls (res (run x (e # es))) = calls (res x) @ (m1 @ m2)"
    using s(2) t(1) by (simp add: run_Cons)
  moreover have "\<not> list_ex is_WriteHead (m1 @ m2)"
    using s(3) t(2) by simp
  ultimately show ?case by blast
qed



text \<open>
  The response of a well-ordered exchange, with a status code \<^verbatim>\<open>res.writeHead\<close> accepts:
  its head is the first call on \<^verbatim>\<open>res\<close> and the only head.
\<close>

lemma responded_calls:
  "client_trace Waiting evs \<Longrightarrow> ProxyResponse sc hs \<in> set evs \<Longrightarrow> 100 \<le> sc \<Longrightarrow> sc \<le> 999 \<Longrightarrow>
   proxyReq x \<noteq> None \<Longrightarrow> calls (res x) = [] \<Longrightarrow> \<not> headersSent (res x) \<Longrightarrow>
   \<exists>more. calls (res (run x evs)) = WriteHead sc hs # more \<and> \<not> list_ex is_WriteHead more"
proof (induction evs arbitrary: x)
  case Nil
  then show ?case by simp
next
  case (Cons e es)
  note pr = proxyReq_on_event [OF Cons.prems(5), of e]
  show ?case
  proof (cases e)
    case (ProxyResponse sc' hs')
    with Cons.prems have tr: "client_trace Responding es" by simp
    from no_response_after_start [OF tr] Cons.prems(2) ProxyResponse
    have e: "e = ProxyResponse sc hs" by auto
    from res_writeHead_ok [OF Cons.prems(7,3,4), of hs] Cons.prems(5,6)
    have st: "headersSent (res (on_event x e))" "calls (res (on_event x e)) = [WriteHead sc hs]"
      unfolding e by auto
    from started_calls [OF st(1), of es] st(2) show ?thesis
      by (auto simp add: run_Cons)
  next
    case (ProxyResData c)
    with Cons.prems show ?thesis by simp
  next
    case ProxyResEnd
    with Cons.prems show ?thesis by simp
  next
    case (ProxyReqError m)
    with Cons.prems have tr: "client_trace Failed es" by simp
    from no_response_after_start [OF tr] Cons.prems(2) ProxyReqError show ?thesis by auto
  next
    case (ReqData c)
    with Cons.prems have tr: "client_trace Waiting es" and mem: "ProxyResponse sc hs \<in> set es"
      by simp_all
    have same: "res (on_event x e) = res x"
      using Cons.prems(5) ReqData by auto
    from Cons.IH [OF tr mem Cons.prems(3,4) pr] same Cons.prems(6,7) show ?thesis
      by (simp add: run_Cons)
  next
    case ReqEnd
    with Cons.prems have tr: "client_trace Waiting es" and mem: "ProxyResponse sc hs \<in> set es"
      by simp_all
    have same: "res (on_event x e) = res x"
      using Cons.prems(5) ReqEnd by auto
    from Cons.IH [OF tr mem Cons.prems(3,4) pr] same Cons.prems(6,7) show ?thesis
      by (simp add: run_Cons)
  qed
qed

lemma failure_free_Cons: "failure_free (e # es) = (\<not> is_failure e \<and> failure_free es)"
  by (simp add: failure_free_def)

text \<open>
  Without a failure and with status codes \<^verbatim>\<open>res.writeHead\<close> accepts, the calls on
  \<^verbatim>\<open>res\<close> are those of the relay, one for each event of the target's response.
\<close>

lemma relayed_calls:
  "client_trace p evs \<Longrightarrow> failure_free evs \<Longrightarrow> status_in_range evs \<Longrightarrow> proxyReq x \<noteq> None \<Longrightarrow>
   (p = Waiting \<longrightarrow> \<not> headersSent (res x)) \<Longrightarrow> (p = Responding \<longrightarrow> piped x) \<Longrightarrow>
   calls (res (run x evs)) = calls (res x) @ relay_calls evs"
proof (induction evs arbitrary: p x)
  case Nil
  then show ?case by (simp add: run_Nil)
next
  case (Cons e es)
  note pr = proxyReq_on_event [OF Cons.prems(4), of e]
  from Cons.prems(2) have ff: "failure_free es" and nf: "\<not> is_failure e"
    by (simp_all add: failure_free_Cons)
  show ?case
  proof (cases e)
    case (ProxyResponse sc hs)
    with Cons.prems have tr: "client_trace Responding es" and p: "p = Waiting"
      and rng: "100 \<le> sc" "sc \<le> 999" "status_in_range es" by simp_all
    from p Cons.prems(5) have ns: "\<not> headersSent (res x)" by simp
    from res_writeHead_ok [OF ns rng(1,2), of hs] Cons.prems(4)
    have st: "piped (on_event x e)" "calls (res (on_event x e)) = calls (res x) @ [WriteHead sc hs]"
      unfolding ProxyResponse by auto
    from Cons.IH [OF tr ff rng(3) pr] st ProxyResponse show ?thesis
      by (simp add: run_Cons)
  next
    case (ProxyResData c)
    with Cons.prems have tr: "client_trace Responding es" and pi: "piped x"
      and rng: "status_in_range es" by simp_all
    have st: "piped (on_event x e)" "calls (res (on_event x e)) = calls (res x) @ [Write c]"
      using pi ProxyResData by (simp_all add: res_write_def)
    from Cons.IH [OF tr ff rng pr] st ProxyResData show ?thesis
      by (simp add: run_Cons)
  next
    case ProxyResEnd
    with Cons.prems have tr: "client_trace Finished es" and pi: "piped x"
      and rng: "status_in_range es" by simp_all
    have st: "calls (res (on_event x e)) = calls (res x) @ [End None]"
      using pi ProxyResEnd by (simp add: res_end_def)
    from Cons.IH [OF tr ff rng pr] st ProxyResEnd show ?thesis
      by (simp add: run_Cons)
  next
    case (ProxyReqError m)
    with nf show ?thesis by simp
  next
    case (ReqData c)
    with Cons.prems have tr: "client_trace p es" and rng: "status_in_range es" by simp_all
    have same: "res (on_event x e) = res x" "piped (on_event x e) = piped x"
      using Cons.prems(4) ReqData by auto
    from Cons.IH [OF tr ff rng pr] same Cons.prems(5,6) ReqData show ?thesis
      by (simp add: run_Cons)
  next
    case ReqEnd
    with Cons.prems have tr: "client_trace p es" and rng: "status_in_range es" by simp_all
    have same: "res (on_event x e) = res x" "piped (on_event x e) = piped x"
      using Cons.prems(4) ReqEnd by auto
    from Cons.IH [OF tr ff rng pr] same Cons.prems(5,6) ReqEnd show ?thesis
      by (simp add: run_Cons)
  qed
qed

lemma relay_chunks: "concat (map call_chunk (relay_calls evs)) = target_chunks evs"
proof (induction evs)
  case Nil
  then show ?case by simp
next
  case (Cons e es)
  then show ?case by (cases e) simp_all
qed

text \<open>In every order of events, the first call on \<^verbatim>\<open>res\<close> writes the head.\<close>

lemma headers_first_on_event:
  assumes "headers_first (calls (res x))" and "calls (res x) = [] \<longrightarrow> \<not> piped x"
  shows "headers_first (calls (res (on_event x e))) \<and>
         (calls (res (on_event x e)) = [] \<longrightarrow> \<not> piped (on_event x e))"
proof (cases "calls (res x)")
  case Nil
  with assms show ?thesis
    by (cases e)
       (auto simp add: headers_first_def res_writeHead_def res_end_def res_write_def Let_def
             split: option.splits sum.splits if_splits)
next
  case (Cons c cs)
  with assms show ?thesis
    by (cases e)
       (auto simp add: headers_first_def res_writeHead_def res_end_def res_write_def Let_def
             split: option.splits sum.splits if_splits)
qed

lemma headers_first_run:
  "headers_first (calls (res x)) \<Longrightarrow> (calls (res x) = [] \<longrightarrow> \<not> piped x) \<Longrightarrow>
   headers_first (calls (res (run x evs)))"
proof (induction evs arbitrary: x)
  case Nil
  then show ?case by (simp add: run_Nil)
next
  case (Cons e es)
  from headers_first_on_event [OF Cons.prems, of e] Cons.IH show ?case
    by (simp add: run_Cons)
qed

text \<open>The handler on \<open>sample_get\<close>.\<close>

lemma sample_get_returns:
  "requestHandler sample_parse sample_request sample_get = Inr sample_get_exchange"
proof -
  let ?u = "\<lparr>protocol = Some ''http:'', hostname = Some ''example.test'', port = None,
          path = Some ''/foo?x=1''\<rparr>"
  have a: "drop 1 (req_url sample_get) \<noteq> []"
    by (simp add: sample_get_def)
  have b: "sample_parse (drop 1 (req_url sample_get)) = Inr ?u"
    by (simp add: sample_get_def sample_parse_def)
  have p: "protocol ?u = Some ''http:'' \<or> protocol ?u = Some ''https:''" by simp
  have h: "(req_headers sample_get)(''host'' := None) = [''accept'' \<mapsto> HString ''*/*'']"
    by (auto simp add: sample_get_def fun_eq_iff)
  have m: "req_method sample_get = ''GET''" "drop 1 (req_url sample_get) = ''http://example.test/foo?x=1''"
    by (simp_all add: sample_get_def)
  from handler_proxied [where url_parse = sample_parse and request = sample_request
      and req = sample_get, OF a b p]
  show ?thesis
    unfolding h m by (simp add: sample_request_def port_or_default_def sample_get_exchange_def)
qed

subsection \<open>The claims\<close>

text \<open>
  C1. For every inbound request whose target parses with protocol \<^verbatim>\<open>http:\<close> or
  \<^verbatim>\<open>https:\<close> and for which \<^verbatim>\<open>request\<close> returns the outbound request, the method of the
  outbound request is the inbound method and its headers are the inbound headers without
  \<^verbatim>\<open>host\<close>: no other header is added, dropped or rewritten, when the request is made and
  after any events.
\<close>

theorem outbound_method_and_headers:
  assumes "drop 1 (req_url req) \<noteq> []"
    and "url_parse (drop 1 (req_url req)) = Inr u"
    and "protocol u = Some ''http:'' \<or> protocol u = Some ''https:''"
    and "requestHandler url_parse request req = Inr x"
  shows "\<exists>r. proxyReq (run x evs) = Some r \<and>
             o_method (options r) = req_method req \<and>
             o_headers (options r) = (req_headers req)(''host'' := None)"
proof -
  note h = handler_proxied_returned [where url_parse = url_parse and request = request
      and req = req, OF assms]
  then obtain r0 where r0: "proxyReq x = Some r0"
    "o_method (options r0) = req_method req"
    "o_headers (options r0) = (req_headers req)(''host'' := None)"
    by simp
  from run_request [OF r0(1), of evs] r0 show ?thesis by auto
qed

theorem outbound_method_and_headers_witness:
  "drop 1 (req_url sample_post) \<noteq> [] \<and>
   sample_parse (drop 1 (req_url sample_post)) =
     Inr \<lparr>protocol = Some ''https:'', hostname = Some ''example.test'', port = None,
          path = Some ''/submit''\<rparr> \<and>
   (\<exists>x r. requestHandler sample_parse sample_request sample_post = Inr x \<and>
          proxyReq (run x [ReqData ''payload'', ReqEnd]) = Some r \<and>
          o_method (options r) = ''POST'' \<and>
          o_headers (options r) = [''content-length'' \<mapsto> HString ''7''])"
proof -
  have a: "drop 1 (req_url sample_post) \<noteq> []"
    by (simp add: sample_post_def)
  have b: "sample_parse (drop 1 (req_url sample_post)) =
     Inr \<lparr>protocol = Some ''https:'', hostname = Some ''example.test'', port = None,
          path = Some ''/submit''\<rparr>"
    by (simp add: sample_post_def sample_parse_def)
  have p: "protocol \<lparr>protocol = Some ''https:'', hostname = Some ''example.test'', port = None,
          path = Some ''/submit''\<rparr> = Some ''http:'' \<or>
     protocol \<lparr>protocol = Some ''https:'', hostname = Some ''example.test'', port = None,
          path = Some ''/submit''\<rparr> = Some ''https:''"
    by simp
  have c: "(req_headers sample_post)(''host'' := None) = [''content-length'' \<mapsto> HString ''7'']"
    by (auto simp add: sample_post_def fun_eq_iff)
  have d: "req_method sample_post = ''POST''"
    by (simp add: sample_post_def)
  from handler_proxied [where url_parse = sample_parse and request = sample_request
      and req = sample_post, OF a b p]
  obtain x where x: "requestHandler sample_parse sample_request sample_post = Inr x"
    by (simp add: sample_request_def port_or_default_def)
  from outbound_method_and_headers [where url_parse = sample_parse and request = sample_request
         and req = sample_post and evs = "[ReqData ''payload'', ReqEnd]", OF a b p x]
  have "\<exists>r. proxyReq (run x [ReqData ''payload'', ReqEnd]) = Some r \<and>
          o_method (options r) = ''POST'' \<and>
          o_headers (options r) = [''content-length'' \<mapsto> HString ''7'']"
    unfolding c d by simp
  with a b x show ?thesis by blast
qed

text \<open>
  What the validation of lines 42 to 46 does with a target that \<^verbatim>\<open>url.parse\<close> returns an
  object for: when the protocol of the object is neither \<^verbatim>\<open>http:\<close> nor \<^verbatim>\<open>https:\<close>, the
  handler answers with status 400, \<^verbatim>\<open>Content-Type: text/plain\<close> and the body below, and
  makes no outbound request.
\<close>

lemma parsed_target_rejected:
  assumes "drop 1 (req_url req) \<noteq> []"
    and "url_parse (drop 1 (req_url req)) = Inr u"
    and "protocol u \<noteq> Some ''http:''"
    and "protocol u \<noteq> Some ''https:''"
  shows "\<exists>x. requestHandler url_parse request req = Inr x \<and>
             res x = \<lparr>headersSent = True,
                      calls = [WriteHead 400 [''Content-Type'' \<mapsto> HString ''text/plain''],
                               End (Some ''Error: Only http or https protocols are supported.'')]\<rparr> \<and>
             proxyReq x = None \<and>
             run x evs = x"
proof -
  note h = handler_400 [where url_parse = url_parse and request = request and req = req, OF assms]
  then obtain x where x: "requestHandler url_parse request req = Inr x"
    "res x = \<lparr>headersSent = True,
              calls = [WriteHead 400 [''Content-Type'' \<mapsto> HString ''text/plain''],
                       End (Some ''Error: Only http or https protocols are supported.'')]\<rparr>"
    "proxyReq x = None" "\<not> piped x"
    by simp
  from run_idle [OF x(3,4), of evs] x show ?thesis by blast
qed

text \<open>
  C2. The claim is that every target that is not empty and fails to parse with scheme
  \<^verbatim>\<open>http\<close> or \<^verbatim>\<open>https\<close>, a malformed URL included, is answered with status 400. At the
  malformed targets \<^verbatim>\<open>http://%@example.test/\<close> and \<^verbatim>\<open>http://xn--/\<close> the code does not
  answer: \<^verbatim>\<open>url.parse\<close> throws on line 39, the exception leaves the handler, and
  nothing has been written to the client or printed.
\<close>

theorem malformed_target_gets_no_400:
  "requestHandler sample_parse sample_request sample_bad_auth = Inl (URIError ''URI malformed'', []) \<and>
   requestHandler sample_parse sample_request sample_bad_host = Inl (TypeError ''ERR_INVALID_URL'', [])"
  by (simp add: requestHandler_def sample_bad_auth_def sample_bad_host_def sample_parse_def)

text \<open>
  C5. For every inbound request whose URL is empty once its first character is dropped,
  whatever the method, the handler answers with status 200, \<^verbatim>\<open>Content-Type: text/html\<close>
  and the help page, makes no outbound request, and no later event changes anything.
\<close>

theorem help_page_on_empty_target:
  assumes "drop 1 (req_url req) = []"
  shows "\<exists>x. requestHandler url_parse request req = Inr x \<and>
             res x = \<lparr>headersSent = True,
                      calls = [WriteHead 200 [''Content-Type'' \<mapsto> HString ''text/html''],
                               End (Some help_page)]\<rparr> \<and>
             proxyReq x = None \<and>
             run x evs = x"
proof -
  note h = handler_help [where url_parse = url_parse and request = request and req = req, OF assms]
  then obtain x where x: "requestHandler url_parse request req = Inr x"
    "res x = \<lparr>headersSent = True,
              calls = [WriteHead 200 [''Content-Type'' \<mapsto> HString ''text/html''],
                       End (Some help_page)]\<rparr>"
    "proxyReq x = None" "\<not> piped x"
    by simp
  from run_idle [OF x(3,4), of evs] x show ?thesis by blast
qed

theorem help_page_on_empty_target_witness:
  "drop 1 (req_url sample_root) = [] \<and> req_method sample_root = ''DELETE'' \<and>
   (\<exists>x. requestHandler sample_parse sample_request sample_root = Inr x \<and>
        res x = \<lparr>headersSent = True,
                 calls = [WriteHead 200 [''Content-Type'' \<mapsto> HString ''text/html''],
                          End (Some help_page)]\<rparr> \<and>
        proxyReq x = None \<and>
        run x [ReqData ''x'', ReqEnd] = x)"
proof -
  have a: "drop 1 (req_url sample_root) = []" "req_method sample_root = ''DELETE''"
    by (simp_all add: sample_root_def)
  from help_page_on_empty_target [where url_parse = sample_parse and request = sample_request
      and req = sample_root and evs = "[ReqData ''x'', ReqEnd]", OF a(1)] a
  show ?thesis by blast
qed

text \<open>
  C7. For every target parsed with protocol \<^verbatim>\<open>http:\<close> or \<^verbatim>\<open>https:\<close> for which
  \<^verbatim>\<open>request\<close> returns the outbound request, that request uses the port of the parsed
  URL when there is one (a non-empty string), and otherwise 443 for \<^verbatim>\<open>https:\<close> and 80 for
  \<^verbatim>\<open>http:\<close>; its host name and its path (path and query) are those of the parsed URL,
  unchanged; and it is made with the module \<^verbatim>\<open>https\<close> for \<^verbatim>\<open>https:\<close> and \<^verbatim>\<open>http\<close> for
  \<^verbatim>\<open>http:\<close>.
\<close>

theorem outbound_port_path_transport:
  assumes "drop 1 (req_url req) \<noteq> []"
    and "url_parse (drop 1 (req_url req)) = Inr u"
    and "protocol u = Some ''http:'' \<or> protocol u = Some ''https:''"
    and "requestHandler url_parse request req = Inr x"
  shows "\<exists>r. proxyReq (run x evs) = Some r \<and>
             (\<forall>p. port u = Some p \<and> p \<noteq> [] \<longrightarrow> o_port (options r) = PortString p) \<and>
             ((port u = None \<or> port u = Some []) \<and> protocol u = Some ''https:'' \<longrightarrow>
                o_port (options r) = PortNumber 443) \<and>
             ((port u = None \<or> port u = Some []) \<and> protocol u = Some ''http:'' \<longrightarrow>
                o_port (options r) = PortNumber 80) \<and>
             o_hostname (options r) = hostname u \<and>
             o_path (options r) = path u \<and>
             (protocol u = Some ''https:'' \<longrightarrow> protocolModule r = https) \<and>
             (protocol u = Some ''http:'' \<longrightarrow> protocolModule r = http)"
proof -
  note h = handler_proxied_returned [where url_parse = url_parse and request = request
      and req = req, OF assms]
  then obtain r0 where x: "proxyReq x = Some r0"
    "o_port (options r0) = port_or_default (port u) (protocol u = Some ''https:'')"
    "o_hostname (options r0) = hostname u" "o_path (options r0) = path u"
    "protocolModule r0 = (if protocol u = Some ''https:'' then https else http)"
    by simp
  from run_request [OF x(1), of evs] obtain r where
    r: "proxyReq (run x evs) = Some r" "options r = options r0"
       "protocolModule r = protocolModule r0" by blast
  have "\<forall>p. port u = Some p \<and> p \<noteq> [] \<longrightarrow> o_port (options r) = PortString p"
    using r(2) x(2) by (simp add: port_or_default_def)
  moreover have "(port u = None \<or> port u = Some []) \<and> protocol u = Some ''https:'' \<longrightarrow>
      o_port (options r) = PortNumber 443"
    using r(2) x(2) by (auto simp add: port_or_default_def)
  moreover have "(port u = None \<or> port u = Some []) \<and> protocol u = Some ''http:'' \<longrightarrow>
      o_port (options r) = PortNumber 80"
    using r(2) x(2) by (auto simp add: port_or_default_def)
  moreover have "o_hostname (options r) = hostname u" "o_path (options r) = path u"
    using r(2) x(3,4) by simp_all
  moreover have "protocol u = Some ''https:'' \<longrightarrow> protocolModule r = https"
    "protocol u = Some ''http:'' \<longrightarrow> protocolModule r = http"
    using r(3) x(5) by simp_all
  ultimately show ?thesis using r(1) by blast
qed

theorem outbound_port_path_transport_witness:
  "drop 1 (req_url sample_port) \<noteq> [] \<and>
   sample_parse (drop 1 (req_url sample_port)) =
     Inr \<lparr>protocol = Some ''http:'', hostname = Some ''127.0.0.1'', port = Some ''3000'',
          path = Some ''/api?q=1''\<rparr> \<and>
   (\<exists>x r. requestHandler sample_parse sample_request sample_port = Inr x \<and> proxyReq x = Some r \<and>
        o_port (options r) = PortString ''3000'' \<and>
        o_hostname (options r) = Some ''127.0.0.1'' \<and>
        o_path (options r) = Some ''/api?q=1'' \<and>
        protocolModule r = http) \<and>
   drop 1 (req_url sample_post) \<noteq> [] \<and>
   sample_parse (drop 1 (req_url sample_post)) =
     Inr \<lparr>protocol = Some ''https:'', hostname = Some ''example.test'', port = None,
          path = Some ''/submit''\<rparr> \<and>
   (\<exists>x r. requestHandler sample_parse sample_request sample_post = Inr x \<and> proxyReq x = Some r \<and>
        o_port (options r) = PortNumber 443 \<and>
        o_hostname (options r) = Some ''example.test'' \<and>
        o_path (options r) = Some ''/submit'' \<and>
        protocolModule r = https) \<and>
   drop 1 (req_url sample_get) \<noteq> [] \<and>
   sample_parse (drop 1 (req_url sample_get)) =
     Inr \<lparr>protocol = Some ''http:'', hostname = Some ''example.test'', port = None,
          path = Some ''/foo?x=1''\<rparr> \<and>
   (\<exists>x r. requestHandler sample_parse sample_request sample_get = Inr x \<and> proxyReq x = Some r \<and>
        o_port (options r) = PortNumber 80 \<and>
        o_hostname (options r) = Some ''example.test'' \<and>
        o_path (options r) = Some ''/foo?x=1'' \<and>
        protocolModule r = http)"
proof -
  let ?u1 = "\<lparr>protocol = Some ''http:'', hostname = Some ''127.0.0.1'', port = Some ''3000'',
          path = Some ''/api?q=1''\<rparr>"
  let ?u2 = "\<lparr>protocol = Some ''https:'', hostname = Some ''example.test'', port = None,
          path = Some ''/submit''\<rparr>"
  let ?u3 = "\<lparr>protocol = Some ''http:'', hostname = Some ''example.test'', port = None,
          path = Some ''/foo?x=1''\<rparr>"
  have a: "drop 1 (req_url sample_port) \<noteq> []"
    by (simp add: sample_port_def)
  have b: "sample_parse (drop 1 (req_url sample_port)) = Inr ?u1"
    by (simp add: sample_port_def sample_parse_def)
  have c: "drop 1 (req_url sample_post) \<noteq> []"
    by (simp add: sample_post_def)
  have d: "sample_parse (drop 1 (req_url sample_post)) = Inr ?u2"
    by (simp add: sample_post_def sample_parse_def)
  have e: "drop 1 (req_url sample_get) \<noteq> []"
    by (simp add: sample_get_def)
  have f: "sample_parse (drop 1 (req_url sample_get)) = Inr ?u3"
    by (simp add: sample_get_def sample_parse_def)
  have p1: "protocol ?u1 = Some ''http:'' \<or> protocol ?u1 = Some ''https:''" by simp
  have p2: "protocol ?u2 = Some ''http:'' \<or> protocol ?u2 = Some ''https:''" by simp
  have p3: "protocol ?u3 = Some ''http:'' \<or> protocol ?u3 = Some ''https:''" by simp
  from handler_proxied [where url_parse = sample_parse and request = sample_request
      and req = sample_port, OF a b p1]
  obtain x1 where x1: "requestHandler sample_parse sample_request sample_port = Inr x1"
    by (simp add: sample_request_def port_or_default_def)
  from handler_proxied [where url_parse = sample_parse and request = sample_request
      and req = sample_post, OF c d p2]
  obtain x2 where x2: "requestHandler sample_parse sample_request sample_post = Inr x2"
    by (simp add: sample_request_def port_or_default_def)
  from handler_proxied [where url_parse = sample_parse and request = sample_request
      and req = sample_get, OF e f p3]
  obtain x3 where x3: "requestHandler sample_parse sample_request sample_get = Inr x3"
    by (simp add: sample_request_def port_or_default_def)
  have "\<exists>r. proxyReq x1 = Some r \<and>
        o_port (options r) = PortString ''3000'' \<and>
        o_hostname (options r) = Some ''127.0.0.1'' \<and>
        o_path (options r) = Some ''/api?q=1'' \<and>
        protocolModule r = http"
    using outbound_port_path_transport [where url_parse = sample_parse and request = sample_request
            and req = sample_port and evs = "[]", OF a b p1 x1] by (simp add: run_Nil)
  moreover have "\<exists>r. proxyReq x2 = Some r \<and>
        o_port (options r) = PortNumber 443 \<and>
        o_hostname (options r) = Some ''example.test'' \<and>
        o_path (options r) = Some ''/submit'' \<and>
        protocolModule r = https"
    using outbound_port_path_transport [where url_parse = sample_parse and request = sample_request
            and req = sample_post and evs = "[]", OF c d p2 x2] by (simp add: run_Nil)
  moreover have "\<exists>r. proxyReq x3 = Some r \<and>
        o_port (options r) = PortNumber 80 \<and>
        o_hostname (options r) = Some ''example.test'' \<and>
        o_path (options r) = Some ''/foo?x=1'' \<and>
        protocolModule r = http"
    using outbound_port_path_transport [where url_parse = sample_parse and request = sample_request
            and req = sample_get and evs = "[]", OF e f p3 x3] by (simp add: run_Nil)
  ultimately show ?thesis using a b c d e f x1 x2 x3 by blast
qed

text \<open>
  C9. For a parsed target that is not empty, the handler answers 400 exactly when the
  parsed protocol is neither \<^verbatim>\<open>http:\<close> nor \<^verbatim>\<open>https:\<close>; and whenever the handler
  returns, it has made no outbound request exactly in that case. In particular, when the
  protocol is one of the two and the parsed URL has no host name (as for the target
  \<^verbatim>\<open>http:/foo\<close>), the validation passes and the outbound request, where \<^verbatim>\<open>request\<close>
  returns it, has an absent host name.
\<close>

theorem validation_checks_protocol_only:
  assumes "drop 1 (req_url req) \<noteq> []"
    and "url_parse (drop 1 (req_url req)) = Inr u"
  shows "((\<exists>x. requestHandler url_parse request req = Inr x \<and>
               res x =
                 \<lparr>headersSent = True,
                  calls = [WriteHead 400 [''Content-Type'' \<mapsto> HString ''text/plain''],
                           End (Some ''Error: Only http or https protocols are supported.'')]\<rparr>)
            = (protocol u \<noteq> Some ''http:'' \<and> protocol u \<noteq> Some ''https:'')) \<and>
         (\<forall>x. requestHandler url_parse request req = Inr x \<longrightarrow>
            ((proxyReq x = None)
               = (protocol u \<noteq> Some ''http:'' \<and> protocol u \<noteq> Some ''https:'')) \<and>
            ((protocol u = Some ''http:'' \<or> protocol u = Some ''https:'') \<and> hostname u = None \<longrightarrow>
               (\<exists>r. proxyReq x = Some r \<and> o_hostname (options r) = None)))"
proof (cases "protocol u \<noteq> Some ''http:'' \<and> protocol u \<noteq> Some ''https:''")
  case True
  then have bad: "protocol u \<noteq> Some ''http:''" "protocol u \<noteq> Some ''https:''" by simp_all
  from handler_400 [where url_parse = url_parse and request = request and req = req,
      OF assms bad] True
  show ?thesis by simp
next
  case False
  then have ok: "protocol u = Some ''http:'' \<or> protocol u = Some ''https:''" by blast
  have "\<forall>x. requestHandler url_parse request req = Inr x \<longrightarrow>
          calls (res x) = [] \<and> (\<exists>r. proxyReq x = Some r \<and> o_hostname (options r) = hostname u)"
  proof (intro allI impI)
    fix x
    assume "requestHandler url_parse request req = Inr x"
    from handler_proxied_returned [where url_parse = url_parse and request = request
        and req = req, OF assms ok this]
    show "calls (res x) = [] \<and> (\<exists>r. proxyReq x = Some r \<and> o_hostname (options r) = hostname u)"
      by simp
  qed
  with False show ?thesis by auto
qed

theorem validation_checks_protocol_only_witness:
  "drop 1 (req_url sample_hostless) = ''http:/foo'' \<and>
   ''http:/foo'' \<noteq> [] \<and>
   sample_parse ''http:/foo'' =
     Inr \<lparr>protocol = Some ''http:'', hostname = None, port = None, path = Some ''/foo''\<rparr> \<and>
   (\<exists>x r. requestHandler sample_parse sample_request sample_hostless = Inr x \<and>
      res x \<noteq>
        \<lparr>headersSent = True,
         calls = [WriteHead 400 [''Content-Type'' \<mapsto> HString ''text/plain''],
                  End (Some ''Error: Only http or https protocols are supported.'')]\<rparr> \<and>
      proxyReq x = Some r \<and> o_hostname (options r) = None) \<and>
   drop 1 (req_url sample_ftp) = ''ftp://example.test/f'' \<and>
   sample_parse ''ftp://example.test/f'' =
     Inr \<lparr>protocol = Some ''ftp:'', hostname = Some ''example.test'', port = None,
          path = Some ''/f''\<rparr> \<and>
   (\<exists>x. requestHandler sample_parse sample_request sample_ftp = Inr x \<and>
      res x =
        \<lparr>headersSent = True,
         calls = [WriteHead 400 [''Content-Type'' \<mapsto> HString ''text/plain''],
                  End (Some ''Error: Only http or https protocols are supported.'')]\<rparr> \<and>
      proxyReq x = None)"
proof -
  let ?u = "\<lparr>protocol = Some ''http:'', hostname = None, port = None, path = Some ''/foo''\<rparr>"
  have a: "drop 1 (req_url sample_hostless) = ''http:/foo''"
    by (simp add: sample_hostless_def)
  have a': "drop 1 (req_url sample_hostless) \<noteq> []"
    by (simp add: sample_hostless_def)
  have b: "sample_parse ''http:/foo'' = Inr ?u"
    by (simp add: sample_parse_def)
  have c: "drop 1 (req_url sample_ftp) = ''ftp://example.test/f''"
    by (simp add: sample_ftp_def)
  have c': "drop 1 (req_url sample_ftp) \<noteq> []"
    by (simp add: sample_ftp_def)
  have d: "sample_parse ''ftp://example.test/f'' =
     Inr \<lparr>protocol = Some ''ftp:'', hostname = Some ''example.test'', port = None,
          path = Some ''/f''\<rparr>"
    by (simp add: sample_parse_def)
  have p: "protocol ?u = Some ''http:'' \<or> protocol ?u = Some ''https:''" by simp
  from handler_proxied [where url_parse = sample_parse and request = sample_request
      and req = sample_hostless, OF a' b [folded a] p]
  obtain x where x: "requestHandler sample_parse sample_request sample_hostless = Inr x"
    by (simp add: sample_request_def port_or_default_def)
  have "\<exists>r. res x \<noteq>
        \<lparr>headersSent = True,
         calls = [WriteHead 400 [''Content-Type'' \<mapsto> HString ''text/plain''],
                  End (Some ''Error: Only http or https protocols are supported.'')]\<rparr> \<and>
      proxyReq x = Some r \<and> o_hostname (options r) = None"
    using validation_checks_protocol_only [where url_parse = sample_parse
            and request = sample_request and req = sample_hostless, OF a' b [folded a]] x
    by auto
  moreover have "\<exists>x. requestHandler sample_parse sample_request sample_ftp = Inr x \<and>
      res x =
        \<lparr>headersSent = True,
         calls = [WriteHead 400 [''Content-Type'' \<mapsto> HString ''text/plain''],
                  End (Some ''Error: Only http or https protocols are supported.'')]\<rparr> \<and>
      proxyReq x = None"
    using validation_checks_protocol_only [where url_parse = sample_parse
            and request = sample_request and req = sample_ftp, OF c' d [folded c]]
    by auto
  ultimately show ?thesis using a b c d x by auto
qed

text \<open>
  C4. When the outbound request emits \<^verbatim>\<open>'error'\<close> and no head has been sent to the client,
  the handler answers with status 500, \<^verbatim>\<open>Content-Type: text/plain\<close> and the body
  \<^verbatim>\<open>Proxy Error: Could not reach target server. (<message>)\<close>; when a head has been
  sent, the failure leaves the client's response as it is.
\<close>

theorem outbound_failure_reported:
  assumes "proxyReq x = Some r"
  shows "(\<not> headersSent (res x) \<longrightarrow>
            res (on_event x (ProxyReqError message)) =
              \<lparr>headersSent = True,
               calls = calls (res x) @
                 [WriteHead 500 [''Content-Type'' \<mapsto> HString ''text/plain''],
                  End (Some (''Proxy Error: Could not reach target server. ('' @ message @ '')''))]\<rparr>) \<and>
         (headersSent (res x) \<longrightarrow> res (on_event x (ProxyReqError message)) = res x)"
  using assms
  by (simp add: Let_def res_end_def res_writeHead_def error_500_body_def)

theorem outbound_failure_reported_witness:
  "requestHandler sample_parse sample_request sample_get = Inr sample_get_exchange \<and>
   (\<exists>r. proxyReq sample_get_exchange = Some r) \<and>
   \<not> headersSent (res sample_get_exchange) \<and>
   res (on_event sample_get_exchange (ProxyReqError ''connect ECONNREFUSED'')) =
     \<lparr>headersSent = True,
      calls = [WriteHead 500 [''Content-Type'' \<mapsto> HString ''text/plain''],
               End (Some ''Proxy Error: Could not reach target server. (connect ECONNREFUSED)'')]\<rparr> \<and>
   headersSent (res (on_event sample_get_exchange (ProxyResponse 200 Map.empty))) \<and>
   res (on_event (on_event sample_get_exchange (ProxyResponse 200 Map.empty))
          (ProxyReqError ''socket hang up'')) =
     \<lparr>headersSent = True, calls = [WriteHead 200 Map.empty]\<rparr>"
proof -
  obtain r0 where r0: "proxyReq sample_get_exchange = Some r0"
    by (simp add: sample_get_exchange_def)
  have fresh: "res sample_get_exchange = \<lparr>headersSent = False, calls = []\<rparr>"
    by (simp add: sample_get_exchange_def)
  obtain r1 where r1: "proxyReq (on_event sample_get_exchange (ProxyResponse 200 Map.empty)) = Some r1"
    and started: "res (on_event sample_get_exchange (ProxyResponse 200 Map.empty)) =
       \<lparr>headersSent = True, calls = [WriteHead 200 Map.empty]\<rparr>"
    using r0 fresh by (simp add: res_writeHead_def)
  from outbound_failure_reported [OF r0, of "''connect ECONNREFUSED''"]
       outbound_failure_reported [OF r1, of "''socket hang up''"]
  have "res (on_event sample_get_exchange (ProxyReqError ''connect ECONNREFUSED'')) =
       \<lparr>headersSent = True,
        calls = [WriteHead 500 [''Content-Type'' \<mapsto> HString ''text/plain''],
                 End (Some ''Proxy Error: Could not reach target server. (connect ECONNREFUSED)'')]\<rparr>"
    "res (on_event (on_event sample_get_exchange (ProxyResponse 200 Map.empty))
          (ProxyReqError ''socket hang up'')) =
       \<lparr>headersSent = True, calls = [WriteHead 200 Map.empty]\<rparr>"
    using fresh started by simp_all
  with sample_get_returns r0 fresh started show ?thesis by simp
qed

text \<open>
  C3, as amended. For every response of the target whose status code is from 100 to 999,
  in an exchange whose events come in the order of \<open>client_trace\<close>, the first call on the
  client's response writes the status code and the header object of that response,
  unchanged, and no other head is written: no header is stripped, added or rewritten.
\<close>

theorem response_head_relayed:
  assumes "requestHandler url_parse request req = Inr x"
    and "proxyReq x \<noteq> None"
    and "client_trace Waiting evs"
    and "ProxyResponse statusCode hs \<in> set evs"
    and "100 \<le> statusCode" and "statusCode \<le> 999"
  shows "\<exists>more. calls (res (run x evs)) = WriteHead statusCode hs # more \<and>
           \<not> list_ex is_WriteHead more"
proof -
  from handler_returned [OF assms(1)] assms(2)
  have "calls (res x) = []" "\<not> headersSent (res x)" by auto
  from responded_calls [OF assms(3-6) assms(2) this] show ?thesis .
qed

theorem response_head_relayed_witness:
  "requestHandler sample_parse sample_request sample_get = Inr sample_get_exchange \<and>
   proxyReq sample_get_exchange \<noteq> None \<and>
   client_trace Waiting
     [ReqEnd, ProxyResponse 302 [''location'' \<mapsto> HString ''/x'', ''connection'' \<mapsto> HString ''close''],
      ProxyResEnd] \<and>
   (100::nat) \<le> 302 \<and> (302::nat) \<le> 999 \<and>
   (\<exists>more. calls (res (run sample_get_exchange
       [ReqEnd, ProxyResponse 302 [''location'' \<mapsto> HString ''/x'', ''connection'' \<mapsto> HString ''close''],
        ProxyResEnd])) =
       WriteHead 302 [''location'' \<mapsto> HString ''/x'', ''connection'' \<mapsto> HString ''close''] # more \<and>
     \<not> list_ex is_WriteHead more)"
proof -
  have n: "proxyReq sample_get_exchange \<noteq> None"
    by (simp add: sample_get_exchange_def)
  have c: "client_trace Waiting
     [ReqEnd, ProxyResponse 302 [''location'' \<mapsto> HString ''/x'', ''connection'' \<mapsto> HString ''close''],
      ProxyResEnd]"
    by simp
  have d: "ProxyResponse 302 [''location'' \<mapsto> HString ''/x'', ''connection'' \<mapsto> HString ''close'']
     \<in> set [ReqEnd, ProxyResponse 302 [''location'' \<mapsto> HString ''/x'', ''connection'' \<mapsto> HString ''close''],
      ProxyResEnd]"
    by simp
  have r: "(100::nat) \<le> 302" "(302::nat) \<le> 999" by simp_all
  from response_head_relayed [OF sample_get_returns n c d r] sample_get_returns n c r
  show ?thesis by blast
qed

text \<open>
  C3 as stated covers every response of the target. For a response with the status code
  099 it fails: \<^verbatim>\<open>res.writeHead\<close> throws on line 68, the exception leaves the callback,
  and no head is written to the client.
\<close>

theorem invalid_status_head_not_relayed:
  "requestHandler sample_parse sample_request sample_get = Inr sample_get_exchange \<and>
   client_trace Waiting [ProxyResponse 99 [''content-length'' \<mapsto> HString ''2'']] \<and>
   calls (res (run sample_get_exchange [ProxyResponse 99 [''content-length'' \<mapsto> HString ''2'']])) = [] \<and>
   uncaught (run sample_get_exchange [ProxyResponse 99 [''content-length'' \<mapsto> HString ''2'']]) =
     [RangeError ''ERR_HTTP_INVALID_STATUS_CODE'']"
  using sample_get_returns
  by (simp add: run_def sample_get_exchange_def res_writeHead_def)



text \<open>
  C6, as amended. For every proxied exchange without a failure whose response has a
  status code from 100 to 999, and whose events come in the order of \<open>client_trace\<close>:
  the calls on the client's response are the head, then one \<^verbatim>\<open>write\<close> for each chunk
  the target sent, in order, then \<^verbatim>\<open>end()\<close> when the target's response ends, so the
  head comes first and the bytes are the same, for any number of chunks; and the chunks
  written to the target are the chunks the client sent, the outbound request being ended
  when the client's request ends. This holds after every prefix of the exchange: each
  chunk is written when it arrives.
\<close>

theorem bodies_relayed_in_order:
  assumes "requestHandler url_parse request req = Inr x"
    and "proxyReq x \<noteq> None"
    and "client_trace Waiting evs"
    and "failure_free evs"
    and "status_in_range evs"
  shows "calls (res (run x evs)) = relay_calls evs \<and>
         headers_first (calls (res (run x evs))) \<and>
         client_chunks (res (run x evs)) = target_chunks evs \<and>
         client_body (res (run x evs)) = concat (target_chunks evs) \<and>
         (\<exists>r. proxyReq (run x evs) = Some r \<and>
              written r = inbound_chunks evs \<and>
              ended r = list_ex is_ReqEnd evs)"
proof -
  from handler_returned [OF assms(1)] assms(2)
  have st: "calls (res x) = []" "\<not> headersSent (res x)" "\<not> piped x" by auto
  have "calls (res (run x evs)) = calls (res x) @ relay_calls evs"
    by (rule relayed_calls [OF assms(3,4,5,2)]) (simp_all add: st)
  then have calls: "calls (res (run x evs)) = relay_calls evs"
    by (simp add: st)
  have first: "headers_first (calls (res (run x evs)))"
    by (rule headers_first_run) (simp_all add: st headers_first_def)
  have chunks: "client_chunks (res (run x evs)) = target_chunks evs"
    by (simp add: client_chunks_def calls relay_chunks)
  from handler_returned [OF assms(1)] assms(2)
  obtain r0 where r0: "proxyReq x = Some r0" and fresh: "written r0 = []" "\<not> ended r0"
    by auto
  from run_request [OF r0, of evs] fresh
  obtain r where r: "proxyReq (run x evs) = Some r" "written r = inbound_chunks evs"
    "ended r = list_ex is_ReqEnd evs" by auto
  from calls first chunks r show ?thesis by (auto simp add: client_body_def)
qed

theorem bodies_relayed_in_order_witness:
  "client_trace Waiting
     [ReqData ''pay'', ProxyResponse 200 Map.empty, ReqData ''load'', ProxyResData ''hel'', ReqEnd,
      ProxyResData ''lo'', ProxyResEnd] \<and>
   failure_free
     [ReqData ''pay'', ProxyResponse 200 Map.empty, ReqData ''load'', ProxyResData ''hel'', ReqEnd,
      ProxyResData ''lo'', ProxyResEnd] \<and>
   status_in_range
     [ReqData ''pay'', ProxyResponse 200 Map.empty, ReqData ''load'', ProxyResData ''hel'', ReqEnd,
      ProxyResData ''lo'', ProxyResEnd] \<and>
   (\<exists>x r. requestHandler sample_parse sample_request sample_post = Inr x \<and>
      proxyReq x \<noteq> None \<and>
      calls (res (run x
        [ReqData ''pay'', ProxyResponse 200 Map.empty, ReqData ''load'', ProxyResData ''hel'', ReqEnd,
         ProxyResData ''lo'', ProxyResEnd])) =
        [WriteHead 200 Map.empty, Write ''hel'', Write ''lo'', End None] \<and>
      client_body (res (run x
        [ReqData ''pay'', ProxyResponse 200 Map.empty, ReqData ''load'', ProxyResData ''hel'', ReqEnd,
         ProxyResData ''lo'', ProxyResEnd])) = ''hello'' \<and>
      proxyReq (run x
        [ReqData ''pay'', ProxyResponse 200 Map.empty, ReqData ''load'', ProxyResData ''hel'', ReqEnd,
         ProxyResData ''lo'', ProxyResEnd]) = Some r \<and>
      written r = [''pay'', ''load''] \<and> ended r)"
proof -
  let ?evs = "[ReqData ''pay'', ProxyResponse 200 Map.empty, ReqData ''load'', ProxyResData ''hel'', ReqEnd,
      ProxyResData ''lo'', ProxyResEnd]"
  let ?u = "\<lparr>protocol = Some ''https:'', hostname = Some ''example.test'', port = None,
          path = Some ''/submit''\<rparr>"
  have a: "drop 1 (req_url sample_post) \<noteq> []"
    by (simp add: sample_post_def)
  have b: "sample_parse (drop 1 (req_url sample_post)) = Inr ?u"
    by (simp add: sample_post_def sample_parse_def)
  have p: "protocol ?u = Some ''http:'' \<or> protocol ?u = Some ''https:''" by simp
  from handler_proxied [where url_parse = sample_parse and request = sample_request
      and req = sample_post, OF a b p]
  obtain x where x: "requestHandler sample_parse sample_request sample_post = Inr x"
    and n: "proxyReq x \<noteq> None"
    by (simp add: sample_request_def port_or_default_def)
  have c: "client_trace Waiting ?evs" by simp
  have d: "failure_free ?evs" by (simp add: failure_free_def)
  have s: "status_in_range ?evs" by simp
  from bodies_relayed_in_order [OF x n c d s]
  have "calls (res (run x ?evs)) = [WriteHead 200 Map.empty, Write ''hel'', Write ''lo'', End None]"
    "client_body (res (run x ?evs)) = ''hello''"
    "\<exists>r. proxyReq (run x ?evs) = Some r \<and> written r = [''pay'', ''load''] \<and> ended r"
    by simp_all
  with x n c d s show ?thesis by blast
qed

text \<open>
  C6 as stated covers every proxied exchange. For a response with the status code 099
  and the body \<^verbatim>\<open>hi\<close> it fails: the callback throws on line 68 before the pipe of line
  71 is installed, and the client receives none of the body.
\<close>

theorem invalid_status_body_not_relayed:
  "requestHandler sample_parse sample_request sample_get = Inr sample_get_exchange \<and>
   client_trace Waiting [ProxyResponse 99 Map.empty, ProxyResData ''hi'', ProxyResEnd] \<and>
   failure_free [ProxyResponse 99 Map.empty, ProxyResData ''hi'', ProxyResEnd] \<and>
   concat (target_chunks [ProxyResponse 99 Map.empty, ProxyResData ''hi'', ProxyResEnd]) = ''hi'' \<and>
   client_body (res (run sample_get_exchange
     [ProxyResponse 99 Map.empty, ProxyResData ''hi'', ProxyResEnd])) = []"
  using sample_get_returns
  by (simp add: run_def sample_get_exchange_def res_writeHead_def failure_free_def
      client_body_def client_chunks_def)

text \<open>
  C8. The claim is that every error arising during a request is handled at the request
  boundary and is never fatal. At the request \<^verbatim>\<open>GET /http://127.0.0.1:99999/\<close> the
  exception that \<^verbatim>\<open>request\<close> throws on line 66 leaves \<^verbatim>\<open>requestHandler\<close> after the line
  of line 63 is printed: no response is written and no listener is registered. In the
  stand-alone server (lines 93 to 102) the handler is the \<^verbatim>\<open>'request'\<close> listener, so the
  exception is uncaught.
\<close>

theorem request_exception_leaves_handler:
  "requestHandler sample_parse sample_request sample_bad_port =
     Inl (RangeError ''ERR_SOCKET_BAD_PORT'',
          [ConsoleLog ''[Proxy] Forwarding GET request to: http://127.0.0.1:99999/''])"
proof -
  let ?u = "\<lparr>protocol = Some ''http:'', hostname = Some ''127.0.0.1'', port = Some ''99999'',
          path = Some ''/''\<rparr>"
  have a: "drop 1 (req_url sample_bad_port) \<noteq> []"
    by (simp add: sample_bad_port_def)
  have b: "sample_parse (drop 1 (req_url sample_bad_port)) = Inr ?u"
    by (simp add: sample_bad_port_def sample_parse_def)
  have p: "protocol ?u = Some ''http:'' \<or> protocol ?u = Some ''https:''" by simp
  have m: "req_method sample_bad_port = ''GET''"
    "drop 1 (req_url sample_bad_port) = ''http://127.0.0.1:99999/''"
    by (simp_all add: sample_bad_port_def)
  from handler_proxied [where url_parse = sample_parse and request = sample_request
      and req = sample_bad_port, OF a b p]
  show ?thesis
    unfolding m by (simp add: sample_request_def port_or_default_def)
qed

end
